theory Spec2Isabelle
  imports Main
begin

section \<open>Python values and library calls used by app.py\<close>

text \<open>
  The shop is one Flask module, \<^verbatim>\<open>app.py\<close>. Its routes read and write three pieces of
  state: the visitor's session (the cart and the flashed messages), the \<^verbatim>\<open>orders\<close>
  table, and the product list read once from \<^verbatim>\<open>products.json\<close>. The embedding
  passes all three explicitly. Strings are ASCII byte strings. Prices are Python
  \<^verbatim>\<open>int\<close>s (whole rupees, as JSON integers); a price written as a JSON float would
  bring in binary floating point, which is outside this development.
\<close>

subsection \<open>Exceptions\<close>

text \<open>
  \<^verbatim>\<open>ValueError\<close> is what \<^verbatim>\<open>int(pid)\<close> raises on a string that is not an integer
  literal. No route catches it around \<^verbatim>\<open>get_product\<close>, so it leaves the view function.
\<close>

datatype exn = ValueError

subsection \<open>\<^verbatim>\<open>int(s)\<close> and \<^verbatim>\<open>str(n)\<close>\<close>

text \<open>
  \<^verbatim>\<open>int(s)\<close> on a string, base ten: surrounding white space is stripped, one sign is
  allowed, then decimal digits, where single underscores may stand between digits.
  Everything else raises \<^verbatim>\<open>ValueError\<close> (the value \<open>None\<close> here). The interpreter's
  limit on the number of digits is not modelled.
\<close>

definition is_space :: "char \<Rightarrow> bool" where
  "is_space c = (let n = (of_char c :: nat) in (9 \<le> n \<and> n \<le> 13) \<or> (28 \<le> n \<and> n \<le> 32))"

definition is_digit :: "char \<Rightarrow> bool" where
  "is_digit c = (let n = (of_char c :: nat) in 48 \<le> n \<and> n \<le> 57)"

definition digit_val :: "char \<Rightarrow> nat" where
  "digit_val c = of_char c - 48"

definition strip :: "string \<Rightarrow> string" where
  "strip s = rev (dropWhile is_space (rev (dropWhile is_space s)))"

fun after_digit :: "nat \<Rightarrow> string \<Rightarrow> nat option" where
  "after_digit acc [] = Some acc"
| "after_digit acc (c # cs) =
     (if is_digit c then after_digit (10 * acc + digit_val c) cs
      else if c = CHR ''_'' then
        (case cs of
           [] \<Rightarrow> None
         | d # ds \<Rightarrow> if is_digit d then after_digit (10 * acc + digit_val d) ds else None)
      else None)"

definition unsigned :: "string \<Rightarrow> nat option" where
  "unsigned s =
     (case s of
        [] \<Rightarrow> None
      | c # cs \<Rightarrow> if is_digit c then after_digit (digit_val c) cs else None)"

definition int_of_str :: "string \<Rightarrow> int option" where
  "int_of_str s =
     (case strip s of
        [] \<Rightarrow> None
      | c # cs \<Rightarrow>
          if c = CHR ''-'' then map_option (\<lambda>n. - int n) (unsigned cs)
          else if c = CHR ''+'' then map_option int (unsigned cs)
          else map_option int (unsigned (c # cs)))"

text \<open>\<^verbatim>\<open>str(n)\<close> of an integer: its decimal digits, with a minus sign when negative.\<close>

definition digit_char :: "nat \<Rightarrow> char" where
  "digit_char d = ''0123456789'' ! (d mod 10)"

fun str_nat :: "nat \<Rightarrow> string" where
  "str_nat n = (if n < 10 then [digit_char n] else str_nat (n div 10) @ [digit_char (n mod 10)])"

declare str_nat.simps [simp del]

definition str_int :: "int \<Rightarrow> string" where
  "str_int i = (if i < 0 then CHR ''-'' # str_nat (nat (- i)) else str_nat (nat i))"

subsection \<open>Dictionaries\<close>

text \<open>
  A Python \<^verbatim>\<open>dict\<close> keeps its keys in insertion order, and the routes iterate over
  the cart, so a dictionary is an association list with distinct keys.
  \<^verbatim>\<open>d[k] = v\<close> overwrites in place when the key is present and appends otherwise;
  \<^verbatim>\<open>d.get(k, default)\<close> reads.
\<close>

fun dict_set :: "('k \<times> 'v) list \<Rightarrow> 'k \<Rightarrow> 'v \<Rightarrow> ('k \<times> 'v) list" where
  "dict_set [] k v = [(k, v)]"
| "dict_set ((k', v') # d) k v =
     (if k' = k then (k, v) # d else (k', v') # dict_set d k v)"

definition dict_get :: "('k \<times> 'v) list \<Rightarrow> 'k \<Rightarrow> 'v \<Rightarrow> 'v" where
  "dict_get d k dflt = (case map_of d k of None \<Rightarrow> dflt | Some v \<Rightarrow> v)"

subsection \<open>Submitted forms\<close>

text \<open>
  \<^verbatim>\<open>request.form\<close> is a multi-dictionary: the submitted fields in order, a key
  possibly more than once. Iterating over it gives each key once, in the order of its
  first occurrence; \<^verbatim>\<open>form.get(key)\<close> gives the first value of the key, or
  \<^verbatim>\<open>None\<close>.
\<close>

type_synonym form = "(string \<times> string) list"

fun form_keys :: "form \<Rightarrow> string list \<Rightarrow> string list" where
  "form_keys [] seen = []"
| "form_keys ((k, v) # rest) seen =
     (if k \<in> set seen then form_keys rest seen else k # form_keys rest (k # seen))"

definition form_get :: "form \<Rightarrow> string \<Rightarrow> string option" where
  "form_get f k = map_of f k"

text \<open>
  \<^verbatim>\<open>key.startswith("qty-")\<close> and \<^verbatim>\<open>key.split("-", 1)[1]\<close>: the part of the key after
  its first hyphen. The route calls the second only where the first holds, so the
  hyphen is there.
\<close>

definition startswith :: "string \<Rightarrow> string \<Rightarrow> bool" where
  "startswith s p = (take (length p) s = p)"

definition split_dash_snd :: "string \<Rightarrow> string" where
  "split_dash_snd key = tl (dropWhile (\<lambda>c. c \<noteq> CHR ''-'') key)"

text \<open>Truth of a value that is \<^verbatim>\<open>None\<close> or a string: false for \<^verbatim>\<open>None\<close> and for \<^verbatim>\<open>""\<close>.\<close>

definition truthy :: "string option \<Rightarrow> bool" where
  "truthy v = (case v of None \<Rightarrow> False | Some s \<Rightarrow> s \<noteq> [])"

section \<open>The program's state\<close>

subsection \<open>Catalog\<close>

text \<open>
  \<^verbatim>\<open>PRODUCTS\<close> is the list loaded from \<^verbatim>\<open>products.json\<close> (empty when the file is
  missing or malformed). A product is a dictionary with at least \<^verbatim>\<open>id\<close>,
  \<^verbatim>\<open>name\<close> and \<^verbatim>\<open>price\<close>; the display fields play no part in the routes.
\<close>

record product =
  prod_id :: int
  prod_name :: string
  price :: int

text \<open>
  \<^verbatim>\<open>get_product(pid)\<close> is called with an \<^verbatim>\<open>int\<close> (the route parameter of
  \<^verbatim>\<open>add_to_cart\<close>) and with a \<^verbatim>\<open>str\<close> (a cart key). \<^verbatim>\<open>int(pid)\<close> is evaluated in
  the loop's condition, once per product visited: on an empty catalog it is never
  evaluated.
\<close>

datatype pid = PidInt int | PidStr string

fun py_int :: "pid \<Rightarrow> int option" where
  "py_int (PidInt n) = Some n"
| "py_int (PidStr s) = int_of_str s"

fun get_product :: "product list \<Rightarrow> pid \<Rightarrow> exn + product option" where
  "get_product [] pid = Inr None"
| "get_product (p # ps) pid =
     (case py_int pid of
        None \<Rightarrow> Inl ValueError
      | Some n \<Rightarrow> if prod_id p = n then Inr (Some p) else get_product ps pid)"

subsection \<open>Session\<close>

text \<open>
  The session holds the cart under the key \<^verbatim>\<open>"cart"\<close> (absent until the first
  write and again after \<^verbatim>\<open>session.pop("cart", None)\<close>) and the messages queued by
  \<^verbatim>\<open>flash(message, category)\<close>. \<^verbatim>\<open>session.get("cart", {})\<close> reads an absent cart as
  the empty dictionary.
\<close>

record session =
  sess_cart :: "(string \<times> int) list option"
  flashes :: "(string \<times> string) list"

definition session_get_cart :: "session \<Rightarrow> (string \<times> int) list" where
  "session_get_cart s = (case sess_cart s of None \<Rightarrow> [] | Some c \<Rightarrow> c)"

definition flash :: "string \<Rightarrow> string \<Rightarrow> session \<Rightarrow> session" where
  "flash message category s = s\<lparr>flashes := flashes s @ [(category, message)]\<rparr>"

subsection \<open>Orders table\<close>

text \<open>
  A row of \<^verbatim>\<open>orders\<close>. The \<^verbatim>\<open>items\<close> column holds \<^verbatim>\<open>json.dumps(items)\<close> and the
  admin view reads it back with \<^verbatim>\<open>json.loads\<close>; the pair is the identity on lists of
  dictionaries of strings and integers, so the row holds the list itself. The text
  columns receive whatever \<^verbatim>\<open>request.form.get\<close> returned, \<^verbatim>\<open>None\<close> included.
  The conversion SQLite applies to the \<^verbatim>\<open>REAL\<close> column \<^verbatim>\<open>total\<close> is not modelled.
\<close>

record item =
  item_id :: int
  item_name :: string
  item_price :: int
  item_qty :: int

record order =
  order_id :: nat
  customer_name :: "string option"
  email :: "string option"
  phone :: "string option"
  address :: "string option"
  delivery_type :: "string option"
  order_items :: "item list"
  order_total :: int
  paid :: int

text \<open>
  The table with its \<^verbatim>\<open>AUTOINCREMENT\<close> counter: a new row gets an id one above both
  the counter and every id in the table.
\<close>

record db =
  rows :: "order list"
  seq :: nat

definition next_id :: "db \<Rightarrow> nat" where
  "next_id d = Suc (fold max (map order_id (rows d)) (seq d))"

text \<open>\<^verbatim>\<open>SELECT ... FROM orders ORDER BY id DESC\<close>.\<close>

definition select_orders :: "db \<Rightarrow> order list" where
  "select_orders d = rev (sort_key order_id (rows d))"

subsection \<open>Configuration and the outside world\<close>

text \<open>
  The configuration is what the module reads from the environment and from
  \<^verbatim>\<open>products.json\<close>. The world gives the outcome of each external call of one
  request: whether the \<^verbatim>\<open>try\<close> block around the insert raises \<^verbatim>\<open>sqlite3.Error\<close>
  (with its text; the block connects, inserts, commits and closes, and is one step
  here: a raise leaves the table as it was), whether the SMTP exchange goes through,
  what \<^verbatim>\<open>stripe.checkout.Session.create\<close> does (\<open>Inl\<close>: raises
  \<^verbatim>\<open>StripeError\<close> with this text; \<open>Inr\<close>: returns a session with this URL), and the
  root under which \<^verbatim>\<open>url_for(..., _external=True)\<close> builds absolute URLs.
\<close>

record config =
  PRODUCTS :: "product list"
  STRIPE_SECRET :: string
  EMAIL_USER :: "string option"
  EMAIL_PASS :: "string option"
  ADMIN_PASSWORD :: "string option"

record world =
  db_fault :: "string option"
  smtp_ok :: bool
  stripe_reply :: "string + string"
  url_root :: string

subsection \<open>Responses and effects\<close>

datatype http_method = GET | HEAD | POST

record line_item =
  currency :: string
  product_name :: string
  unit_amount :: int
  quantity :: int

record stripe_session =
  payment_method_types :: "string list"
  line_items :: "line_item list"
  mode :: string
  success_url :: string
  cancel_url :: string

record cart_line = product +
  qty :: int
  subtotal :: int

datatype response =
    Redirect string nat
  | RenderCart "cart_line list" int
  | RenderCheckout "item list" int
  | RenderAdmin "order list option" bool
  | ServerError exn

text \<open>
  The effects of one checkout run beyond the session, in the order the statements
  run: the insert (committed, or raised), \<^verbatim>\<open>session.pop("cart", None)\<close>, the call of
  \<^verbatim>\<open>send_order_email\<close> with its return value, the request sent to Stripe.
\<close>

datatype event =
    EvInsert order
  | EvInsertFailed string
  | EvPopCart
  | EvEmail bool
  | EvStripe stripe_session

record result =
  r_session :: session
  r_db :: db
  r_trace :: "event list"
  r_response :: response

definition url_index :: string where "url_index = ''/''"
definition url_cart :: string where "url_cart = ''/cart''"
definition url_checkout :: string where "url_checkout = ''/checkout''"
definition url_success :: string where "url_success = ''/success''"

section \<open>The routes\<close>

subsection \<open>\<^verbatim>\<open>/add-to-cart/<int:pid>\<close>\<close>


subsection \<open>\<^verbatim>\<open>/cart\<close>\<close>

text \<open>
  The loop of \<^verbatim>\<open>cart()\<close> over \<^verbatim>\<open>cart.items()\<close>, with the two accumulators
  \<^verbatim>\<open>items\<close> and \<^verbatim>\<open>total\<close>. A raise of \<^verbatim>\<open>get_product\<close> ends the loop and the request.
\<close>

fun cart_loop ::
  "product list \<Rightarrow> (string \<times> int) list \<Rightarrow> cart_line list \<Rightarrow> int \<Rightarrow> exn + (cart_line list \<times> int)"
where
  "cart_loop ps [] items tot = Inr (items, tot)"
| "cart_loop ps ((k, q) # rest) items tot =
     (case get_product ps (PidStr k) of
        Inl e \<Rightarrow> Inl e
      | Inr None \<Rightarrow> cart_loop ps rest items tot
      | Inr (Some p) \<Rightarrow>
          (let p_copy = \<lparr>prod_id = prod_id p, prod_name = prod_name p, price = price p,
                         qty = q, subtotal = price p * q\<rparr>
           in cart_loop ps rest (items @ [p_copy]) (tot + subtotal p_copy)))"

definition cart :: "config \<Rightarrow> session \<Rightarrow> response" where
  "cart cfg s =
     (case cart_loop (PRODUCTS cfg) (session_get_cart s) [] 0 of
        Inl e \<Rightarrow> ServerError e
      | Inr (items, tot) \<Rightarrow> RenderCart items tot)"

subsection \<open>\<^verbatim>\<open>/update-cart\<close>\<close>

text \<open>
  The loop over the form's keys, building a new dictionary from nothing.
  \<^verbatim>\<open>int(data.get(key, 0))\<close> is inside \<^verbatim>\<open>try\<close>: a \<^verbatim>\<open>ValueError\<close> sets the quantity
  to 0. The part of the key after \<^verbatim>\<open>qty-\<close> becomes the cart key as it is.
\<close>

fun update_loop :: "form \<Rightarrow> string list \<Rightarrow> (string \<times> int) list \<Rightarrow> (string \<times> int) list" where
  "update_loop data [] c = c"
| "update_loop data (key # keys) c =
     (if startswith key ''qty-'' then
        (let k = split_dash_snd key;
             q = (case form_get data key of
                    None \<Rightarrow> 0
                  | Some v \<Rightarrow> (case int_of_str v of None \<Rightarrow> 0 | Some n \<Rightarrow> n))
         in if q > 0 then update_loop data keys (dict_set c k q)
            else update_loop data keys c)
      else update_loop data keys c)"

definition update_cart :: "form \<Rightarrow> session \<Rightarrow> session \<times> response" where
  "update_cart data s =
     (s\<lparr>sess_cart := Some (update_loop data (form_keys data []) [])\<rparr>, Redirect url_cart 302)"

subsection \<open>\<^verbatim>\<open>send_order_email\<close>\<close>

text \<open>
  Returns \<^verbatim>\<open>False\<close> without sending when the sender's address, its password or the
  recipient is missing or empty; any exception while composing or sending is caught
  and gives \<^verbatim>\<open>False\<close>. The text of the message is not modelled.
\<close>

definition send_order_email :: "config \<Rightarrow> world \<Rightarrow> string option \<Rightarrow> bool" where
  "send_order_email cfg w to_email =
     (if \<not> truthy (EMAIL_USER cfg) \<or> \<not> truthy (EMAIL_PASS cfg) \<or> \<not> truthy to_email then False
      else smtp_ok w)"

subsection \<open>\<^verbatim>\<open>/checkout\<close>\<close>

fun checkout_loop ::
  "product list \<Rightarrow> (string \<times> int) list \<Rightarrow> item list \<Rightarrow> int \<Rightarrow> exn + (item list \<times> int)"
where
  "checkout_loop ps [] items tot = Inr (items, tot)"
| "checkout_loop ps ((k, q) # rest) items tot =
     (case get_product ps (PidStr k) of
        Inl e \<Rightarrow> Inl e
      | Inr None \<Rightarrow> checkout_loop ps rest items tot
      | Inr (Some p) \<Rightarrow>
          checkout_loop ps rest
            (items @ [\<lparr>item_id = prod_id p, item_name = prod_name p, item_price = price p,
                       item_qty = q\<rparr>])
            (tot + price p * q))"

text \<open>The list comprehension that turns the order's items into Stripe's lines.\<close>

definition stripe_line :: "item \<Rightarrow> line_item" where
  "stripe_line it =
     \<lparr>currency = ''inr'', product_name = item_name it, unit_amount = item_price it * 100,
      quantity = item_qty it\<rparr>"

definition stripe_request :: "world \<Rightarrow> nat \<Rightarrow> item list \<Rightarrow> stripe_session" where
  "stripe_request w oid items =
     \<lparr>payment_method_types = [''card''],
      line_items = map stripe_line items,
      mode = ''payment'',
      success_url = url_root w @ url_success @ ''?order_id='' @ str_nat oid,
      cancel_url = url_root w @ url_checkout\<rparr>"

text \<open>
  The view function, statement by statement. Only \<^verbatim>\<open>request.method == "GET"\<close> is
  tested, so every other method takes the branch that saves the order.
\<close>

definition checkout :: "config \<Rightarrow> world \<Rightarrow> http_method \<Rightarrow> form \<Rightarrow> session \<Rightarrow> db \<Rightarrow> result" where
  "checkout cfg w m data s d =
     (let c = session_get_cart s in
      if c = [] then
        \<lparr>r_session = flash ''Your cart is empty'' ''error'' s, r_db = d, r_trace = [],
         r_response = Redirect url_index 302\<rparr>
      else
        (case checkout_loop (PRODUCTS cfg) c [] 0 of
           Inl e \<Rightarrow> \<lparr>r_session = s, r_db = d, r_trace = [], r_response = ServerError e\<rparr>
         | Inr (items, tot) \<Rightarrow>
            (if m = GET then
               \<lparr>r_session = s, r_db = d, r_trace = [], r_response = RenderCheckout items tot\<rparr>
             else
               (let name = form_get data ''name'';
                    email_v = form_get data ''email'';
                    phone_v = form_get data ''phone'';
                    address_v = form_get data ''address'';
                    delivery = form_get data ''delivery_type'';
                    pay_method = form_get data ''pay_method''
                in
                if \<not> truthy name \<or> \<not> truthy phone_v then
                  \<lparr>r_session = flash ''Please enter name and phone'' ''error'' s, r_db = d,
                   r_trace = [], r_response = Redirect url_checkout 302\<rparr>
                else
                  (case db_fault w of
                     Some e \<Rightarrow>
                       \<lparr>r_session = flash (''Database error: '' @ e) ''error'' s, r_db = d,
                        r_trace = [EvInsertFailed e], r_response = Redirect url_checkout 302\<rparr>
                   | None \<Rightarrow>
                       (let oid = next_id d;
                            row = \<lparr>order_id = oid, customer_name = name, email = email_v,
                                   phone = phone_v, address = address_v,
                                   delivery_type = delivery, order_items = items,
                                   order_total = tot, paid = 0\<rparr>;
                            d' = \<lparr>rows = rows d @ [row], seq = oid\<rparr>;
                            s' = s\<lparr>sess_cart := None\<rparr>;
                            sent = send_order_email cfg w email_v;
                            evs = [EvInsert row, EvPopCart, EvEmail sent]
                        in
                        if pay_method = Some ''stripe'' \<and> STRIPE_SECRET cfg \<noteq> [] then
                          (let req = stripe_request w oid items in
                           (case stripe_reply w of
                              Inr url \<Rightarrow>
                                \<lparr>r_session = s', r_db = d', r_trace = evs @ [EvStripe req],
                                 r_response = Redirect url 303\<rparr>
                            | Inl e \<Rightarrow>
                                \<lparr>r_session =
                                   flash (''Payment processing error: '' @ e) ''error'' s',
                                 r_db = d', r_trace = evs @ [EvStripe req],
                                 r_response = Redirect url_checkout 302\<rparr>))
                        else
                          \<lparr>r_session = s', r_db = d', r_trace = evs,
                           r_response =
                             Redirect (url_success @ ''?order_id='' @ str_nat oid) 302\<rparr>))))))"

subsection \<open>\<^verbatim>\<open>/admin\<close>\<close>


subsection \<open>Names for the parts of a checkout run\<close>

text \<open>
  The row that the \<^verbatim>\<open>INSERT\<close> statement writes, the effects that follow a committed
  insert, and the test that guards the Stripe branch. They only name terms that
  \<open>checkout\<close> already contains, so that its paths can be stated one by one.
\<close>

definition order_row :: "nat \<Rightarrow> form \<Rightarrow> item list \<Rightarrow> int \<Rightarrow> order" where
  "order_row oid data items tot =
     \<lparr>order_id = oid, customer_name = form_get data ''name'', email = form_get data ''email'',
      phone = form_get data ''phone'', address = form_get data ''address'',
      delivery_type = form_get data ''delivery_type'', order_items = items,
      order_total = tot, paid = 0\<rparr>"

definition saved_events :: "config \<Rightarrow> world \<Rightarrow> form \<Rightarrow> order \<Rightarrow> event list" where
  "saved_events cfg w data row =
     [EvInsert row, EvPopCart, EvEmail (send_order_email cfg w (form_get data ''email''))]"

definition wants_stripe :: "config \<Rightarrow> form \<Rightarrow> bool" where
  "wants_stripe cfg data = (form_get data ''pay_method'' = Some ''stripe'' \<and> STRIPE_SECRET cfg \<noteq> [])"



subsection \<open>Sequences of checkout requests\<close>




section \<open>Notions used to state the properties\<close>

text \<open>
  The required fields that a submitted form leaves empty, and whether a text
  occurs inside another. Neither is part of the program.
\<close>

definition missing_fields :: "form \<Rightarrow> string list" where
  "missing_fields data = filter (\<lambda>k. \<not> truthy (form_get data k)) [''name'', ''phone'']"


text \<open>
  The join of the specification, written without the loop: a cart key resolves to the
  first product whose id is the integer the key denotes; a cart entry gives a line when
  its key resolves. A cart is derivable when no lookup can raise: the catalog is empty
  or every key is an integer literal.
\<close>

definition resolve :: "product list \<Rightarrow> string \<Rightarrow> product option" where
  "resolve ps k =
     (case int_of_str k of None \<Rightarrow> None | Some n \<Rightarrow> find (\<lambda>p. prod_id p = n) ps)"

definition cart_line_of :: "product list \<Rightarrow> string \<times> int \<Rightarrow> cart_line option" where
  "cart_line_of ps kq =
     map_option
       (\<lambda>p. \<lparr>prod_id = prod_id p, prod_name = prod_name p, price = price p, qty = snd kq,
             subtotal = price p * snd kq\<rparr>)
       (resolve ps (fst kq))"

definition item_of :: "product list \<Rightarrow> string \<times> int \<Rightarrow> item option" where
  "item_of ps kq =
     map_option
       (\<lambda>p. \<lparr>item_id = prod_id p, item_name = prod_name p, item_price = price p,
             item_qty = snd kq\<rparr>)
       (resolve ps (fst kq))"

definition derivable :: "product list \<Rightarrow> (string \<times> int) list \<Rightarrow> bool" where
  "derivable ps c = (ps = [] \<or> list_all (\<lambda>kq. int_of_str (fst kq) \<noteq> None) c)"

section \<open>A running example\<close>

text \<open>
  A catalog of two products priced 10 and 25, a cart with two of the first and one of
  the second, and a form with the two required fields.
\<close>

definition ex_products :: "product list" where
  "ex_products =
     [\<lparr>prod_id = 1, prod_name = ''Sparkler'', price = 10\<rparr>,
      \<lparr>prod_id = 2, prod_name = ''Rocket'', price = 25\<rparr>]"

definition ex_config :: config where
  "ex_config =
     \<lparr>PRODUCTS = ex_products, STRIPE_SECRET = ''sk_test'', EMAIL_USER = None,
      EMAIL_PASS = None, ADMIN_PASSWORD = None\<rparr>"

definition ex_world :: world where
  "ex_world =
     \<lparr>db_fault = None, smtp_ok = True, stripe_reply = Inl ''card declined'',
      url_root = ''http://shop.example''\<rparr>"

definition ex_session :: session where
  "ex_session = \<lparr>sess_cart = Some [(''1'', 2), (''2'', 1)], flashes = []\<rparr>"

definition ex_db :: db where
  "ex_db = \<lparr>rows = [], seq = 0\<rparr>"

definition ex_form :: form where
  "ex_form = [(''name'', ''A''), (''phone'', ''123'')]"



section \<open>The paths through \<open>checkout\<close>\<close>

text \<open>
  One equation per path of the view function, and the case analysis that says there
  is no other path.
\<close>

lemma checkout_empty:
  "session_get_cart s = [] \<Longrightarrow>
   checkout cfg w m data s d =
     \<lparr>r_session = flash ''Your cart is empty'' ''error'' s, r_db = d, r_trace = [],
      r_response = Redirect url_index 302\<rparr>"
  by (simp add: checkout_def)

lemma checkout_raise:
  "session_get_cart s \<noteq> [] \<Longrightarrow> checkout_loop (PRODUCTS cfg) (session_get_cart s) [] 0 = Inl e \<Longrightarrow>
   checkout cfg w m data s d = \<lparr>r_session = s, r_db = d, r_trace = [], r_response = ServerError e\<rparr>"
  by (simp add: checkout_def)

lemma checkout_get:
  "session_get_cart s \<noteq> [] \<Longrightarrow>
   checkout_loop (PRODUCTS cfg) (session_get_cart s) [] 0 = Inr (items, tot) \<Longrightarrow>
   checkout cfg w GET data s d =
     \<lparr>r_session = s, r_db = d, r_trace = [], r_response = RenderCheckout items tot\<rparr>"
  by (simp add: checkout_def)

lemma checkout_invalid:
  "session_get_cart s \<noteq> [] \<Longrightarrow>
   checkout_loop (PRODUCTS cfg) (session_get_cart s) [] 0 = Inr (items, tot) \<Longrightarrow>
   m \<noteq> GET \<Longrightarrow>
   \<not> truthy (form_get data ''name'') \<or> \<not> truthy (form_get data ''phone'') \<Longrightarrow>
   checkout cfg w m data s d =
     \<lparr>r_session = flash ''Please enter name and phone'' ''error'' s, r_db = d, r_trace = [],
      r_response = Redirect url_checkout 302\<rparr>"
  by (simp add: checkout_def Let_def)

lemma checkout_db_fail:
  "session_get_cart s \<noteq> [] \<Longrightarrow>
   checkout_loop (PRODUCTS cfg) (session_get_cart s) [] 0 = Inr (items, tot) \<Longrightarrow>
   m \<noteq> GET \<Longrightarrow> truthy (form_get data ''name'') \<Longrightarrow> truthy (form_get data ''phone'') \<Longrightarrow>
   db_fault w = Some e \<Longrightarrow>
   checkout cfg w m data s d =
     \<lparr>r_session = flash (''Database error: '' @ e) ''error'' s, r_db = d,
      r_trace = [EvInsertFailed e], r_response = Redirect url_checkout 302\<rparr>"
  by (simp add: checkout_def Let_def)

lemma checkout_direct:
  "session_get_cart s \<noteq> [] \<Longrightarrow>
   checkout_loop (PRODUCTS cfg) (session_get_cart s) [] 0 = Inr (items, tot) \<Longrightarrow>
   m \<noteq> GET \<Longrightarrow> truthy (form_get data ''name'') \<Longrightarrow> truthy (form_get data ''phone'') \<Longrightarrow>
   db_fault w = None \<Longrightarrow> \<not> wants_stripe cfg data \<Longrightarrow>
   row = order_row (next_id d) data items tot \<Longrightarrow>
   checkout cfg w m data s d =
     \<lparr>r_session = s\<lparr>sess_cart := None\<rparr>, r_db = \<lparr>rows = rows d @ [row], seq = next_id d\<rparr>,
      r_trace = saved_events cfg w data row,
      r_response = Redirect (url_success @ ''?order_id='' @ str_nat (next_id d)) 302\<rparr>"
  by (auto simp add: checkout_def Let_def wants_stripe_def order_row_def saved_events_def)

lemma checkout_stripe_ok:
  "session_get_cart s \<noteq> [] \<Longrightarrow>
   checkout_loop (PRODUCTS cfg) (session_get_cart s) [] 0 = Inr (items, tot) \<Longrightarrow>
   m \<noteq> GET \<Longrightarrow> truthy (form_get data ''name'') \<Longrightarrow> truthy (form_get data ''phone'') \<Longrightarrow>
   db_fault w = None \<Longrightarrow> wants_stripe cfg data \<Longrightarrow> stripe_reply w = Inr url \<Longrightarrow>
   row = order_row (next_id d) data items tot \<Longrightarrow>
   checkout cfg w m data s d =
     \<lparr>r_session = s\<lparr>sess_cart := None\<rparr>, r_db = \<lparr>rows = rows d @ [row], seq = next_id d\<rparr>,
      r_trace = saved_events cfg w data row @ [EvStripe (stripe_request w (next_id d) items)],
      r_response = Redirect url 303\<rparr>"
  by (simp add: checkout_def Let_def wants_stripe_def order_row_def saved_events_def)

lemma checkout_stripe_error:
  "session_get_cart s \<noteq> [] \<Longrightarrow>
   checkout_loop (PRODUCTS cfg) (session_get_cart s) [] 0 = Inr (items, tot) \<Longrightarrow>
   m \<noteq> GET \<Longrightarrow> truthy (form_get data ''name'') \<Longrightarrow> truthy (form_get data ''phone'') \<Longrightarrow>
   db_fault w = None \<Longrightarrow> wants_stripe cfg data \<Longrightarrow> stripe_reply w = Inl e \<Longrightarrow>
   row = order_row (next_id d) data items tot \<Longrightarrow>
   checkout cfg w m data s d =
     \<lparr>r_session = flash (''Payment processing error: '' @ e) ''error'' (s\<lparr>sess_cart := None\<rparr>),
      r_db = \<lparr>rows = rows d @ [row], seq = next_id d\<rparr>,
      r_trace = saved_events cfg w data row @ [EvStripe (stripe_request w (next_id d) items)],
      r_response = Redirect url_checkout 302\<rparr>"
  by (simp add: checkout_def Let_def wants_stripe_def order_row_def saved_events_def)


lemma checkout_paths:
  obtains
    (Empty) "session_get_cart s = []"
  | (Raise) e where
      "session_get_cart s \<noteq> []"
      "checkout_loop (PRODUCTS cfg) (session_get_cart s) [] 0 = Inl e"
  | (Get) items tot where
      "session_get_cart s \<noteq> []"
      "checkout_loop (PRODUCTS cfg) (session_get_cart s) [] 0 = Inr (items, tot)"
      "m = GET"
  | (Invalid) items tot where
      "session_get_cart s \<noteq> []"
      "checkout_loop (PRODUCTS cfg) (session_get_cart s) [] 0 = Inr (items, tot)"
      "m \<noteq> GET"
      "\<not> truthy (form_get data ''name'') \<or> \<not> truthy (form_get data ''phone'')"
  | (DbFail) items tot e where
      "session_get_cart s \<noteq> []"
      "checkout_loop (PRODUCTS cfg) (session_get_cart s) [] 0 = Inr (items, tot)"
      "m \<noteq> GET" "truthy (form_get data ''name'')" "truthy (form_get data ''phone'')"
      "db_fault w = Some e"
  | (Direct) items tot where
      "session_get_cart s \<noteq> []"
      "checkout_loop (PRODUCTS cfg) (session_get_cart s) [] 0 = Inr (items, tot)"
      "m \<noteq> GET" "truthy (form_get data ''name'')" "truthy (form_get data ''phone'')"
      "db_fault w = None" "\<not> wants_stripe cfg data"
  | (StripeOk) items tot url where
      "session_get_cart s \<noteq> []"
      "checkout_loop (PRODUCTS cfg) (session_get_cart s) [] 0 = Inr (items, tot)"
      "m \<noteq> GET" "truthy (form_get data ''name'')" "truthy (form_get data ''phone'')"
      "db_fault w = None" "wants_stripe cfg data" "stripe_reply w = Inr url"
  | (StripeError) items tot e where
      "session_get_cart s \<noteq> []"
      "checkout_loop (PRODUCTS cfg) (session_get_cart s) [] 0 = Inr (items, tot)"
      "m \<noteq> GET" "truthy (form_get data ''name'')" "truthy (form_get data ''phone'')"
      "db_fault w = None" "wants_stripe cfg data" "stripe_reply w = Inl e"
proof (cases "session_get_cart s = []")
  case True
  then show ?thesis by (rule Empty)
next
  case nonempty: False
  show ?thesis
  proof (cases "checkout_loop (PRODUCTS cfg) (session_get_cart s) [] 0")
    case (Inl e)
    with nonempty show ?thesis by (rule Raise)
  next
    case (Inr res)
    obtain items tot where res: "res = (items, tot)" by (cases res)
    have lp: "checkout_loop (PRODUCTS cfg) (session_get_cart s) [] 0 = Inr (items, tot)"
      using Inr res by simp
    show ?thesis
    proof (cases "m = GET")
      case True
      with nonempty lp show ?thesis by (rule Get)
    next
      case post: False
      show ?thesis
      proof (cases "truthy (form_get data ''name'') \<and> truthy (form_get data ''phone'')")
        case False
        then have "\<not> truthy (form_get data ''name'') \<or> \<not> truthy (form_get data ''phone'')"
          by simp
        with nonempty lp post show ?thesis by (rule Invalid)
      next
        case True
        then have nm: "truthy (form_get data ''name'')" and ph: "truthy (form_get data ''phone'')"
          by simp_all
        show ?thesis
        proof (cases "db_fault w")
          case (Some e)
          with nonempty lp post nm ph show ?thesis by (rule DbFail)
        next
          case None
          show ?thesis
          proof (cases "wants_stripe cfg data")
            case False
            with nonempty lp post nm ph None show ?thesis by (rule Direct)
          next
            case True
            show ?thesis
            proof (cases "stripe_reply w")
              case (Inl e)
              with nonempty lp post nm ph None True show ?thesis by (rule StripeError)
            next
              case (Inr url)
              with nonempty lp post nm ph None True show ?thesis by (rule StripeOk)
            qed
          qed
        qed
      qed
    qed
  qed
qed

section \<open>Facts about the helper functions\<close>

subsection \<open>Dictionaries and forms\<close>



lemma keys_dict_set: "fst ` set (dict_set c k v) = insert k (fst ` set c)"
  by (induction c) force+

lemma distinct_dict_set: "distinct (map fst c) \<Longrightarrow> distinct (map fst (dict_set c k v))"
  by (induction c) (auto simp: keys_dict_set)





subsection \<open>The loop of \<open>update_cart\<close>\<close>


lemma distinct_update_loop: "distinct (map fst c) \<Longrightarrow> distinct (map fst (update_loop data keys c))"
  by (induction keys arbitrary: c) (auto simp: Let_def distinct_dict_set)


subsection \<open>Product lookup and the two derivation loops\<close>


lemma get_product_int_total: "\<exists>r. get_product ps (PidInt n) = Inr r"
  by (induction ps) auto




lemma checkout_loop_unresolved:
  "list_all (\<lambda>(k, q). get_product ps (PidStr k) = Inr None) c \<Longrightarrow>
   checkout_loop ps c items tot = Inr (items, tot)"
  by (induction c arbitrary: items tot) auto

subsection \<open>The loops compute the join\<close>

lemma get_product_find:
  "py_int pid = Some n \<Longrightarrow> get_product ps pid = Inr (find (\<lambda>p. prod_id p = n) ps)"
  by (induction ps) auto

lemma get_product_resolve:
  "ps = [] \<or> int_of_str k \<noteq> None \<Longrightarrow> get_product ps (PidStr k) = Inr (resolve ps k)"
proof (cases "int_of_str k")
  case None
  assume "ps = [] \<or> int_of_str k \<noteq> None"
  with None show ?thesis by (simp add: resolve_def)
next
  case (Some n)
  then show ?thesis using get_product_find [of "PidStr k" n ps] by (simp add: resolve_def)
qed

lemma derivable_Cons:
  "derivable ps (kq # c) \<Longrightarrow> (ps = [] \<or> int_of_str (fst kq) \<noteq> None) \<and> derivable ps c"
  by (auto simp: derivable_def)

lemma cart_loop_derivable:
  "derivable ps c \<Longrightarrow>
   cart_loop ps c items tot =
     Inr (items @ List.map_filter (cart_line_of ps) c,
          tot + sum_list (map subtotal (List.map_filter (cart_line_of ps) c)))"
proof (induction c arbitrary: items tot)
  case Nil
  then show ?case by (simp add: map_filter_simps)
next
  case (Cons kq c)
  obtain k q where kq: "kq = (k, q)" by (cases kq)
  from Cons.prems kq have gp: "get_product ps (PidStr k) = Inr (resolve ps k)"
    and rest: "derivable ps c"
    using derivable_Cons [of ps kq c] get_product_resolve [of ps k] by simp_all
  show ?case
  proof (cases "resolve ps k")
    case None
    with gp kq Cons.IH [OF rest] show ?thesis
      by (simp add: map_filter_simps cart_line_of_def)
  next
    case (Some p)
    with gp kq Cons.IH [OF rest] show ?thesis
      by (simp add: map_filter_simps cart_line_of_def Let_def)
  qed
qed

lemma checkout_loop_derivable:
  "derivable ps c \<Longrightarrow>
   checkout_loop ps c items tot =
     Inr (items @ List.map_filter (item_of ps) c,
          tot + sum_list (map (\<lambda>i. item_price i * item_qty i) (List.map_filter (item_of ps) c)))"
proof (induction c arbitrary: items tot)
  case Nil
  then show ?case by (simp add: map_filter_simps)
next
  case (Cons kq c)
  obtain k q where kq: "kq = (k, q)" by (cases kq)
  from Cons.prems kq have gp: "get_product ps (PidStr k) = Inr (resolve ps k)"
    and rest: "derivable ps c"
    using derivable_Cons [of ps kq c] get_product_resolve [of ps k] by simp_all
  show ?case
  proof (cases "resolve ps k")
    case None
    with gp kq Cons.IH [OF rest] show ?thesis
      by (simp add: map_filter_simps item_of_def)
  next
    case (Some p)
    with gp kq Cons.IH [OF rest] show ?thesis
      by (simp add: map_filter_simps item_of_def)
  qed
qed

subsection \<open>Order ids and the table\<close>










subsection \<open>Evaluating the example\<close>

lemmas ex_defs = ex_products_def ex_config_def ex_world_def ex_session_def ex_db_def ex_form_def

lemmas eval_defs = is_space_def is_digit_def digit_val_def strip_def unsigned_def int_of_str_def
  digit_char_def str_nat.simps str_int_def dict_get_def form_get_def startswith_def
  split_dash_snd_def truthy_def session_get_cart_def flash_def next_id_def select_orders_def
  url_index_def url_cart_def url_checkout_def url_success_def send_order_email_def

subsection \<open>Runs of the example\<close>

lemma ex_run_direct:
  "checkout ex_config ex_world POST ex_form ex_session ex_db =
     \<lparr>r_session = \<lparr>sess_cart = None, flashes = []\<rparr>,
      r_db = \<lparr>rows = [order_row 1 ex_form
                 [\<lparr>item_id = 1, item_name = ''Sparkler'', item_price = 10, item_qty = 2\<rparr>,
                  \<lparr>item_id = 2, item_name = ''Rocket'', item_price = 25, item_qty = 1\<rparr>] 45],
              seq = 1\<rparr>,
      r_trace = [EvInsert (order_row 1 ex_form
                 [\<lparr>item_id = 1, item_name = ''Sparkler'', item_price = 10, item_qty = 2\<rparr>,
                  \<lparr>item_id = 2, item_name = ''Rocket'', item_price = 25, item_qty = 1\<rparr>] 45),
                 EvPopCart, EvEmail False],
      r_response = Redirect ''/success?order_id=1'' 302\<rparr>"
  by (simp add: checkout_def Let_def order_row_def ex_defs eval_defs)


lemma ex_run_db_fault:
  "checkout ex_config (ex_world\<lparr>db_fault := Some ''disk full''\<rparr>) POST ex_form ex_session ex_db =
     \<lparr>r_session =
        \<lparr>sess_cart = Some [(''1'', 2), (''2'', 1)],
         flashes = [(''error'', ''Database error: disk full'')]\<rparr>,
      r_db = ex_db, r_trace = [EvInsertFailed ''disk full''],
      r_response = Redirect ''/checkout'' 302\<rparr>"
  by (simp add: checkout_def Let_def ex_defs eval_defs)

lemma ex_run_no_name:
  "checkout ex_config ex_world POST [(''name'', []), (''phone'', ''123'')] ex_session ex_db =
     \<lparr>r_session =
        \<lparr>sess_cart = Some [(''1'', 2), (''2'', 1)],
         flashes = [(''error'', ''Please enter name and phone'')]\<rparr>,
      r_db = ex_db, r_trace = [], r_response = Redirect ''/checkout'' 302\<rparr>"
  by (simp add: checkout_def Let_def ex_defs eval_defs)

lemma ex_run_no_phone:
  "checkout ex_config ex_world POST [(''name'', ''A''), (''phone'', [])] ex_session ex_db =
     \<lparr>r_session =
        \<lparr>sess_cart = Some [(''1'', 2), (''2'', 1)],
         flashes = [(''error'', ''Please enter name and phone'')]\<rparr>,
      r_db = ex_db, r_trace = [], r_response = Redirect ''/checkout'' 302\<rparr>"
  by (simp add: checkout_def Let_def ex_defs eval_defs)

lemma ex_checkout_loop:
  "checkout_loop (PRODUCTS ex_config) (session_get_cart ex_session) [] 0 =
     Inr ([\<lparr>item_id = 1, item_name = ''Sparkler'', item_price = 10, item_qty = 2\<rparr>,
           \<lparr>item_id = 2, item_name = ''Rocket'', item_price = 25, item_qty = 1\<rparr>], 45)"
  by (simp add: ex_defs eval_defs)

section \<open>The claims\<close>

subsection \<open>C1: the cart is cleared exactly when the order was inserted\<close>

text \<open>
  Claim C1. In every run of \<open>checkout\<close> on a POST, \<^verbatim>\<open>session.pop("cart", None)\<close>
  happens if and only if the insert was committed. After a committed insert the run's
  effects start with the insert, then the pop, then the call of
  \<^verbatim>\<open>send_order_email\<close>, then at most the Stripe request: the cart is cleared before
  notification and payment, whatever they return, the table holds the new row and the
  session has no cart. On every other path (empty cart, exception in the derivation,
  validation failure, storage failure) the table and the session's cart are
  unchanged.
\<close>

theorem checkout_clears_cart_iff_inserted:
  fixes cfg w data s d
  defines "r \<equiv> checkout cfg w POST data s d"
  shows
    "(EvPopCart \<in> set (r_trace r) \<longleftrightarrow> (\<exists>row. EvInsert row \<in> set (r_trace r))) \<and>
     ((\<exists>row sent rest.
         r_trace r = EvInsert row # EvPopCart # EvEmail sent # rest \<and>
         (rest = [] \<or> (\<exists>req. rest = [EvStripe req])) \<and>
         r_db r = \<lparr>rows = rows d @ [row], seq = order_id row\<rparr> \<and>
         sess_cart (r_session r) = None)
      \<or>
      ((r_trace r = [] \<or> (\<exists>e. r_trace r = [EvInsertFailed e])) \<and>
       r_db r = d \<and>
       sess_cart (r_session r) = sess_cart s))"
proof (cases rule: checkout_paths [where s = s and cfg = cfg and m = POST and data = data and w = w])
  case Empty
  then show ?thesis unfolding r_def by (simp add: checkout_empty flash_def)
next
  case (Raise e)
  then show ?thesis unfolding r_def by (simp add: checkout_raise)
next
  case (Get items tot)
  then show ?thesis by simp
next
  case (Invalid items tot)
  then show ?thesis unfolding r_def by (simp add: checkout_invalid flash_def)
next
  case (DbFail items tot e)
  then show ?thesis unfolding r_def by (simp add: checkout_db_fail flash_def)
next
  case (Direct items tot)
  then show ?thesis unfolding r_def
    by (simp add: checkout_direct [OF _ _ _ _ _ _ _ refl] saved_events_def order_row_def)
next
  case (StripeOk items tot url)
  then show ?thesis unfolding r_def
    by (simp add: checkout_stripe_ok [OF _ _ _ _ _ _ _ _ refl] saved_events_def order_row_def)
next
  case (StripeError items tot e)
  then show ?thesis unfolding r_def
    by (simp add: checkout_stripe_error [OF _ _ _ _ _ _ _ _ refl] saved_events_def order_row_def flash_def)
qed

theorem checkout_clears_cart_iff_inserted_witness:
  "r_trace (checkout ex_config ex_world POST ex_form ex_session ex_db) =
     [EvInsert (order_row 1 ex_form
        [\<lparr>item_id = 1, item_name = ''Sparkler'', item_price = 10, item_qty = 2\<rparr>,
         \<lparr>item_id = 2, item_name = ''Rocket'', item_price = 25, item_qty = 1\<rparr>] 45),
      EvPopCart, EvEmail False] \<and>
   sess_cart (r_session (checkout ex_config ex_world POST ex_form ex_session ex_db)) = None \<and>
   r_trace (checkout ex_config (ex_world\<lparr>db_fault := Some ''disk full''\<rparr>) POST ex_form
     ex_session ex_db) = [EvInsertFailed ''disk full''] \<and>
   sess_cart (r_session (checkout ex_config (ex_world\<lparr>db_fault := Some ''disk full''\<rparr>) POST
     ex_form ex_session ex_db)) = sess_cart ex_session"
proof -
  have c: "sess_cart ex_session = Some [(''1'', 2), (''2'', 1)]"
    by (simp add: ex_session_def)
  show ?thesis
    using checkout_clears_cart_iff_inserted [of ex_config ex_world ex_form ex_session ex_db]
      checkout_clears_cart_iff_inserted
        [of ex_config "ex_world\<lparr>db_fault := Some ''disk full''\<rparr>" ex_form ex_session ex_db]
    by (simp add: ex_run_direct ex_run_db_fault c)
qed

subsection \<open>C2: a storage error leaves no order and keeps the cart\<close>



subsection \<open>C4: missing name or phone\<close>

text \<open>
  Claim C4 says that a submission with an empty \<^verbatim>\<open>name\<close> or \<^verbatim>\<open>phone\<close> creates no
  order, leaves the cart unchanged, returns to the review and produces an error that
  identifies the missing field or fields. The program flashes one fixed message: a
  submission without a name and one without a phone number get the same session and
  the same response, so the error does not say which field is missing.
\<close>

theorem validation_error_same_for_both_fields:
  "missing_fields [(''name'', []), (''phone'', ''123'')] = [''name''] \<and>
   missing_fields [(''name'', ''A''), (''phone'', [])] = [''phone''] \<and>
   checkout ex_config ex_world POST [(''name'', []), (''phone'', ''123'')] ex_session ex_db =
     checkout ex_config ex_world POST [(''name'', ''A''), (''phone'', [])] ex_session ex_db \<and>
   flashes (r_session
     (checkout ex_config ex_world POST [(''name'', ''A''), (''phone'', [])] ex_session ex_db)) =
     [(''error'', ''Please enter name and phone'')]"
  by (simp add: ex_run_no_name ex_run_no_phone missing_fields_def truthy_def form_get_def)

text \<open>
  Claim C4 as amended. A submission with an empty or absent \<^verbatim>\<open>name\<close> or
  \<^verbatim>\<open>phone\<close> creates no order, has no effect outside the session and leaves the
  cart unchanged. When moreover the request is not a GET, the cart is not empty and its
  line items can be derived, the response redirects to the checkout page and the fixed
  message \<^verbatim>\<open>Please enter name and phone\<close> is flashed, whichever field is missing.
\<close>

theorem validation_failure_keeps_cart:
  assumes "\<not> truthy (form_get data ''name'') \<or> \<not> truthy (form_get data ''phone'')"
  shows "r_db (checkout cfg w m data s d) = d \<and>
         r_trace (checkout cfg w m data s d) = [] \<and>
         sess_cart (r_session (checkout cfg w m data s d)) = sess_cart s \<and>
         (\<forall>items tot.
            m \<noteq> GET \<and> session_get_cart s \<noteq> [] \<and>
            checkout_loop (PRODUCTS cfg) (session_get_cart s) [] 0 = Inr (items, tot) \<longrightarrow>
            r_response (checkout cfg w m data s d) = Redirect url_checkout 302 \<and>
            flashes (r_session (checkout cfg w m data s d)) =
              flashes s @ [(''error'', ''Please enter name and phone'')])"
proof (cases rule: checkout_paths [where s = s and cfg = cfg and m = m and data = data and w = w])
  case Empty
  with assms show ?thesis by (simp add: checkout_empty flash_def)
next
  case (Raise e)
  with assms show ?thesis by (simp add: checkout_raise)
next
  case (Get items tot)
  with assms show ?thesis by (simp add: checkout_get)
next
  case (Invalid items tot)
  with assms show ?thesis by (simp add: checkout_invalid flash_def)
next
  case (DbFail items tot e')
  with assms show ?thesis by simp
next
  case (Direct items tot)
  with assms show ?thesis by simp
next
  case (StripeOk items tot url)
  with assms show ?thesis by simp
next
  case (StripeError items tot e')
  with assms show ?thesis by simp
qed

theorem validation_failure_keeps_cart_witness:
  "\<not> truthy (form_get [(''name'', ''A''), (''phone'', [])] ''phone'') \<and>
   POST \<noteq> GET \<and> session_get_cart ex_session \<noteq> [] \<and>
   r_db (checkout ex_config ex_world POST [(''name'', ''A''), (''phone'', [])] ex_session ex_db) =
     ex_db \<and>
   sess_cart (r_session
     (checkout ex_config ex_world POST [(''name'', ''A''), (''phone'', [])] ex_session ex_db)) =
     sess_cart ex_session \<and>
   r_response
     (checkout ex_config ex_world POST [(''name'', ''A''), (''phone'', [])] ex_session ex_db) =
     Redirect url_checkout 302 \<and>
   flashes (r_session
     (checkout ex_config ex_world POST [(''name'', ''A''), (''phone'', [])] ex_session ex_db)) =
     flashes ex_session @ [(''error'', ''Please enter name and phone'')]"
proof -
  have h: "\<not> truthy (form_get [(''name'', ''A''), (''phone'', [])] ''name'') \<or>
      \<not> truthy (form_get [(''name'', ''A''), (''phone'', [])] ''phone'')"
    by (simp add: truthy_def form_get_def)
  have c: "session_get_cart ex_session \<noteq> []"
    by (simp add: ex_session_def session_get_cart_def)
  have p: "\<not> truthy (form_get [(''name'', ''A''), (''phone'', [])] ''phone'')"
    by (simp add: truthy_def form_get_def)
  show ?thesis
    using p c ex_checkout_loop
      validation_failure_keeps_cart [OF h, of ex_config ex_world POST ex_session ex_db]
    by simp
qed

subsection \<open>C5: a payment error after the order was saved\<close>




subsection \<open>C6: the request sent to Stripe\<close>



subsection \<open>C3: line items of a cart\<close>

text \<open>
  Claim C3 says that for every cart the derivation of line items joins each entry with
  the catalog, drops the entries whose product id does not resolve, and returns the
  items with a total that is the sum of the subtotals. \<^verbatim>\<open>update_cart\<close> stores the
  key \<^verbatim>\<open>abc\<close> for the field \<^verbatim>\<open>qty-abc=2\<close>; on that cart and a catalog that is not
  empty, \<^verbatim>\<open>int("abc")\<close> raises in \<^verbatim>\<open>get_product\<close>, so both derivations end in an
  exception instead of dropping the entry.
\<close>

theorem derivation_raises_on_non_integer_key:
  "sess_cart (fst (update_cart [(''qty-abc'', ''2'')] ex_session)) = Some [(''abc'', 2)] \<and>
   cart ex_config \<lparr>sess_cart = Some [(''abc'', 2)], flashes = []\<rparr> = ServerError ValueError \<and>
   checkout_loop ex_products [(''abc'', 2)] [] 0 = Inl ValueError"
  by (simp add: update_cart_def cart_def ex_defs eval_defs)

text \<open>
  What does hold of the two derivations: where no key makes \<^verbatim>\<open>int\<close> raise (every cart
  key is an integer literal, or the catalog is empty), the cart page shows exactly the
  lines of the entries that resolve, in the cart's order, each with subtotal equal to
  price times quantity, and a total equal to the sum of the subtotals. The same holds
  for the items and the total that \<open>checkout\<close> computes.
\<close>

theorem cart_lines_of_derivable_cart:
  assumes "derivable (PRODUCTS cfg) (session_get_cart s)"
  shows "\<exists>items.
           cart cfg s = RenderCart items (sum_list (map subtotal items)) \<and>
           items = List.map_filter (cart_line_of (PRODUCTS cfg)) (session_get_cart s) \<and>
           list_all (\<lambda>l. subtotal l = price l * qty l) items"
proof -
  let ?items = "List.map_filter (cart_line_of (PRODUCTS cfg)) (session_get_cart s)"
  have "cart cfg s = RenderCart ?items (sum_list (map subtotal ?items))"
    using cart_loop_derivable [OF assms, of "[]" 0] by (simp add: cart_def)
  moreover have "list_all (\<lambda>l. subtotal l = price l * qty l) ?items"
    by (auto simp: list_all_iff map_filter_def cart_line_of_def)
  ultimately show ?thesis by blast
qed

theorem cart_lines_of_derivable_cart_witness:
  "derivable (PRODUCTS ex_config) (session_get_cart ex_session) \<and>
   cart ex_config ex_session =
     RenderCart
       [\<lparr>prod_id = 1, prod_name = ''Sparkler'', price = 10, qty = 2, subtotal = 20\<rparr>,
        \<lparr>prod_id = 2, prod_name = ''Rocket'', price = 25, qty = 1, subtotal = 25\<rparr>] 45"
proof -
  have h: "derivable (PRODUCTS ex_config) (session_get_cart ex_session)"
    by (simp add: derivable_def ex_defs eval_defs)
  have "List.map_filter (cart_line_of (PRODUCTS ex_config)) (session_get_cart ex_session) =
      [\<lparr>prod_id = 1, prod_name = ''Sparkler'', price = 10, qty = 2, subtotal = 20\<rparr>,
       \<lparr>prod_id = 2, prod_name = ''Rocket'', price = 25, qty = 1, subtotal = 25\<rparr>]"
    by (simp add: map_filter_simps cart_line_of_def resolve_def ex_defs eval_defs)
  then show ?thesis
    using h cart_lines_of_derivable_cart [OF h] by auto
qed

text \<open>
  The same for the loop of \<open>checkout\<close>: on a derivable cart it returns the items of
  the entries that resolve, in order, and the sum of price times quantity over them.
\<close>

theorem checkout_items_of_derivable_cart:
  assumes "derivable ps c"
  shows "checkout_loop ps c [] 0 =
           Inr (List.map_filter (item_of ps) c,
                sum_list (map (\<lambda>i. item_price i * item_qty i) (List.map_filter (item_of ps) c)))"
  using checkout_loop_derivable [OF assms, of "[]" 0] by simp

theorem checkout_items_of_derivable_cart_witness:
  "derivable ex_products [(''1'', 2), (''7'', 3), (''2'', 1)] \<and>
   checkout_loop ex_products [(''1'', 2), (''7'', 3), (''2'', 1)] [] 0 =
     Inr ([\<lparr>item_id = 1, item_name = ''Sparkler'', item_price = 10, item_qty = 2\<rparr>,
           \<lparr>item_id = 2, item_name = ''Rocket'', item_price = 25, item_qty = 1\<rparr>], 45)"
proof -
  have h: "derivable ex_products [(''1'', 2), (''7'', 3), (''2'', 1)]"
    by (simp add: derivable_def ex_defs eval_defs)
  have "List.map_filter (item_of ex_products) [(''1'', 2), (''7'', 3), (''2'', 1)] =
      [\<lparr>item_id = 1, item_name = ''Sparkler'', item_price = 10, item_qty = 2\<rparr>,
       \<lparr>item_id = 2, item_name = ''Rocket'', item_price = 25, item_qty = 1\<rparr>]"
    by (simp add: map_filter_simps item_of_def resolve_def ex_defs eval_defs)
  then show ?thesis
    using h checkout_items_of_derivable_cart [OF h] by simp
qed

subsection \<open>C7: an order's items and total do not change with the catalog\<close>



subsection \<open>C8: adding to the cart and updating quantities\<close>



subsection \<open>C9: a cart key that is not an integer\<close>




subsection \<open>C10: a cart with no resolvable product still becomes an order\<close>

text \<open>
  Claim C10. The guard at the top of \<open>checkout\<close> tests the cart, not the derived
  items. If the cart is not empty, every lookup of a cart key returns \<^verbatim>\<open>None\<close>, the
  form has a name and a phone number and the insert goes through, then a POST inserts a
  row with no items, total 0 and \<^verbatim>\<open>paid = 0\<close>, and clears the cart.
\<close>

theorem unresolved_cart_still_orders:
  assumes "session_get_cart s \<noteq> []"
    and "list_all (\<lambda>(k, q). get_product (PRODUCTS cfg) (PidStr k) = Inr None) (session_get_cart s)"
    and "truthy (form_get data ''name'')" and "truthy (form_get data ''phone'')"
    and "db_fault w = None"
  shows "\<exists>row. r_db (checkout cfg w POST data s d) = \<lparr>rows = rows d @ [row], seq = order_id row\<rparr> \<and>
           EvInsert row \<in> set (r_trace (checkout cfg w POST data s d)) \<and>
           order_id row = next_id d \<and>
           order_items row = [] \<and> order_total row = 0 \<and> paid row = 0 \<and>
           sess_cart (r_session (checkout cfg w POST data s d)) = None"
proof -
  have lp: "checkout_loop (PRODUCTS cfg) (session_get_cart s) [] 0 = Inr ([], 0)"
    using assms(2) by (rule checkout_loop_unresolved)
  show ?thesis
  proof (cases rule: checkout_paths [where s = s and cfg = cfg and m = POST and data = data and w = w])
    case Empty
    with assms show ?thesis by simp
  next
    case (Raise e)
    with lp show ?thesis by simp
  next
    case (Get items tot)
    then show ?thesis by simp
  next
    case (Invalid items tot)
    with assms show ?thesis by simp
  next
    case (DbFail items tot e')
    with assms show ?thesis by simp
  next
    case (Direct items tot)
    with lp show ?thesis
      by (simp add: checkout_direct [OF _ _ _ _ _ _ _ refl] saved_events_def order_row_def)
  next
    case (StripeOk items tot url)
    with lp show ?thesis
      by (simp add: checkout_stripe_ok [OF _ _ _ _ _ _ _ _ refl] saved_events_def order_row_def)
  next
    case (StripeError items tot e')
    with lp show ?thesis
      by (simp add: checkout_stripe_error [OF _ _ _ _ _ _ _ _ refl] saved_events_def
          order_row_def flash_def)
  qed
qed

theorem unresolved_cart_still_orders_witness:
  "session_get_cart \<lparr>sess_cart = Some [(''9'', 1)], flashes = []\<rparr> \<noteq> [] \<and>
   get_product (PRODUCTS ex_config) (PidStr ''9'') = Inr None \<and>
   db_fault ex_world = None \<and>
   (\<exists>row. r_db (checkout ex_config ex_world POST ex_form
        \<lparr>sess_cart = Some [(''9'', 1)], flashes = []\<rparr> ex_db) =
        \<lparr>rows = rows ex_db @ [row], seq = order_id row\<rparr> \<and>
      order_items row = [] \<and> order_total row = 0 \<and> paid row = 0) \<and>
   sess_cart (r_session (checkout ex_config ex_world POST ex_form
     \<lparr>sess_cart = Some [(''9'', 1)], flashes = []\<rparr> ex_db)) = None"
proof -
  let ?s = "\<lparr>sess_cart = Some [(''9'', 1)], flashes = []\<rparr>"
  have a: "session_get_cart ?s \<noteq> []"
    by (simp add: session_get_cart_def)
  have g: "get_product (PRODUCTS ex_config) (PidStr ''9'') = Inr None"
    by (simp add: ex_defs eval_defs)
  then have b: "list_all (\<lambda>(k, q). get_product (PRODUCTS ex_config) (PidStr k) = Inr None)
      (session_get_cart ?s)"
    by (simp add: session_get_cart_def)
  have c: "truthy (form_get ex_form ''name'')" and d: "truthy (form_get ex_form ''phone'')"
    by (simp_all add: ex_form_def truthy_def form_get_def)
  have e: "db_fault ex_world = None"
    by (simp add: ex_world_def)
  show ?thesis
    using a g e unresolved_cart_still_orders [OF a b c d e, of ex_db] by blast
qed

end
